theory Spec2Isabelle
  imports Complex_Main "HOL-Library.Sublist"
begin

section \<open>Python strings\<close>

text \<open>
  A Python \<open>str\<close> is modelled as a \<open>string\<close> whose characters are the code points below
  256, and \<open>len\<close> is \<open>length\<close>. Whitespace and the case mappings are Python's on these
  characters, with one exception: the title-case forms of U+00B5 and U+00FF are code points
  beyond 255, and \<open>char_title\<close> leaves these two characters as they are.
\<close>

text \<open>\<open>c.isspace()\<close>, which is also the class \<open>\s\<close> of a pattern.\<close>

definition isspace :: "char \<Rightarrow> bool" where
  "isspace c \<longleftrightarrow>
     c \<in> {CHR 0x09, CHR 0x0A, CHR 0x0B, CHR 0x0C, CHR 0x0D,
          CHR 0x1C, CHR 0x1D, CHR 0x1E, CHR 0x1F, CHR 0x20, CHR 0x85, CHR 0xA0}"

text \<open>\<open>s.strip()\<close>: leading and trailing whitespace removed.\<close>

definition str_strip :: "string \<Rightarrow> string" where
  "str_strip s = rev (dropWhile isspace (rev (dropWhile isspace s)))"

text \<open>
  \<open>s.split(sep)\<close>: the pieces between the non-overlapping occurrences of \<open>sep\<close>, found
  from the left. Python raises \<open>ValueError\<close> on an empty separator; every call in the
  program passes a non-empty literal, and the model does not split on an empty one.
\<close>

function str_split :: "string \<Rightarrow> string \<Rightarrow> string list" where
  "str_split sep [] = [[]]"
| "str_split sep (c # cs) =
     (if sep \<noteq> [] \<and> prefix sep (c # cs)
      then [] # str_split sep (drop (length sep) (c # cs))
      else (case str_split sep cs of
              [] \<Rightarrow> [[c]]
            | p # ps \<Rightarrow> (c # p) # ps))"
  by pat_completeness auto
termination
  by (relation "measure (\<lambda>(sep, s). length s)") (auto simp: neq_Nil_conv)

text \<open>\<open>sep.join(parts)\<close>.\<close>

fun str_join :: "string \<Rightarrow> string list \<Rightarrow> string" where
  "str_join sep [] = []"
| "str_join sep [p] = p"
| "str_join sep (p # q # ps) = p @ sep @ str_join sep (q # ps)"

section \<open>Response parser (\<open>StoryEngine._parse_response\<close>)\<close>

definition DECISION_POINT :: string where
  "DECISION_POINT = ''DECISION_POINT''"

definition newline :: string where
  "newline = [CHR 0x0A]"

definition fallback_options :: "string list" where
  "fallback_options =
     [''Continue cautiously'', ''Take a bold approach'',
      ''Seek more information'', ''Try a creative solution'']"

definition padding_options :: "string list" where
  "padding_options =
     [''Take a different approach'', ''Wait and observe'',
      ''Act decisively'', ''Seek help from others'']"

text \<open>
  The tail \<open>\s*(.+)\<close> of the option pattern, matched at the start of the argument with
  Python's backtracking: \<open>\s*\<close> first takes as much whitespace as it can, and gives a
  character back only when \<open>(.+)\<close> would otherwise be empty; \<open>.\<close> matches every character
  but the newline, and \<open>(.+)\<close> is greedy. The result is group 1.
\<close>

fun ws_then_text :: "string \<Rightarrow> string option" where
  "ws_then_text [] = None"
| "ws_then_text (c # cs) =
     (if isspace c
      then (case ws_then_text cs of
              Some g \<Rightarrow> Some g
            | None \<Rightarrow> if c \<noteq> CHR 0x0A
                      then Some (takeWhile (\<lambda>x. x \<noteq> CHR 0x0A) (c # cs)) else None)
      else Some (takeWhile (\<lambda>x. x \<noteq> CHR 0x0A) (c # cs)))"

text \<open>\<open>re.match(r'^[1-4][\.\)]\s*(.+)', line)\<close>: \<open>None\<close> when there is no match, group 1 otherwise.\<close>

definition match_option :: "string \<Rightarrow> string option" where
  "match_option line =
     (case line of
        d # p # rest \<Rightarrow>
          if d \<in> set ''1234'' \<and> p \<in> set ''.)'' then ws_then_text rest else None
      | _ \<Rightarrow> None)"

text \<open>The loop over the lines of the options text.\<close>

fun extract_options :: "string list \<Rightarrow> string list" where
  "extract_options [] = []"
| "extract_options (line # rest) =
     (case match_option (str_strip line) of
        Some g \<Rightarrow> str_strip g # extract_options rest
      | None \<Rightarrow> extract_options rest)"

text \<open>The padding and truncation at the end of \<open>_parse_response\<close>.\<close>

definition exactly_four :: "string list \<Rightarrow> string list" where
  "exactly_four options =
     (if length options < 4 then options @ take (4 - length options) padding_options
      else if length options > 4 then take 4 options
      else options)"

definition parse_response :: "string \<Rightarrow> string \<times> string list" where
  "parse_response response =
     (let parts = str_split DECISION_POINT response in
      if length parts < 2 then (str_strip response, fallback_options)
      else
        let story_text = str_strip (parts ! 0);
            options_text = str_strip (parts ! 1);
            options = extract_options (str_split newline options_text)
        in (story_text, exactly_four options))"

section \<open>Character (\<open>character.py\<close>)\<close>

text \<open>
  The lowercase form of a character: the letters \<open>A\<close> to \<open>Z\<close> and the uppercase letters
  U+00C0 to U+00DE (but the sign U+00D7) move up by 32.
\<close>

definition char_lower :: "char \<Rightarrow> char" where
  "char_lower c =
     (let n = of_char c :: nat
      in if (65 \<le> n \<and> n \<le> 90) \<or> (192 \<le> n \<and> n \<le> 214) \<or> (216 \<le> n \<and> n \<le> 222)
         then char_of (n + 32) else c)"

text \<open>
  The title-case form of a character: the letters \<open>a\<close> to \<open>z\<close> and the lowercase letters
  U+00E0 to U+00FE (but the sign U+00F7) move down by 32, and U+00DF becomes \<open>Ss\<close>.
\<close>

definition char_title :: "char \<Rightarrow> string" where
  "char_title c =
     (let n = of_char c :: nat
      in if (97 \<le> n \<and> n \<le> 122) \<or> (224 \<le> n \<and> n \<le> 246) \<or> (248 \<le> n \<and> n \<le> 254)
         then [char_of (n - 32)]
         else if n = 223 then ''Ss'' else [c])"

text \<open>The cased characters: the letters, and the ordinal indicators U+00AA and U+00BA.\<close>

definition is_cased :: "char \<Rightarrow> bool" where
  "is_cased c \<longleftrightarrow>
     (let n = of_char c :: nat
      in (65 \<le> n \<and> n \<le> 90) \<or> (97 \<le> n \<and> n \<le> 122) \<or> n = 170 \<or> n = 181 \<or> n = 186
         \<or> (192 \<le> n \<and> n \<le> 214) \<or> (216 \<le> n \<and> n \<le> 246) \<or> (248 \<le> n \<and> n \<le> 255))"

text \<open>\<open>s.lower()\<close>.\<close>

definition str_lower :: "string \<Rightarrow> string" where
  "str_lower s = map char_lower s"

text \<open>
  \<open>s.title()\<close>: a character that follows a cased character is lowercased, every other
  character is put in title case.
\<close>

fun title_from :: "bool \<Rightarrow> string \<Rightarrow> string" where
  "title_from previous_is_cased [] = []"
| "title_from previous_is_cased (c # cs) =
     (if previous_is_cased then [char_lower c] else char_title c)
       @ title_from (is_cased c) cs"

definition str_title :: "string \<Rightarrow> string" where
  "str_title s = title_from False s"

record Character =
  name :: string
  background :: string
  traits :: "string list"
  goals :: string
  world :: string

definition to_prompt :: "Character \<Rightarrow> string" where
  "to_prompt c =
     (let traits_str =
            (if traits c \<noteq> [] then str_join '', '' (traits c)
             else ''No specific traits defined'');
          prompt =
            newline @ ''PROTAGONIST PROFILE:'' @ newline
            @ ''Name: '' @ name c @ newline
            @ ''World: '' @ str_title (world c) @ newline
            @ ''Background: '' @ background c @ newline
            @ ''Personality Traits: '' @ traits_str @ newline
            @ ''Goals & Motivations: '' @ goals c @ newline
            @ newline
            @ ''This character is the protagonist of the story. All narrative should be written from their perspective or about their actions and decisions.''
            @ newline
      in str_strip prompt)"

text \<open>\<open>validate\<close> returns \<open>(len(issues) == 0, issues)\<close>.\<close>

definition validate :: "Character \<Rightarrow> bool \<times> string list" where
  "validate c =
     (let issues = [];
          issues = (if name c = [] \<or> length (str_strip (name c)) < 2
                    then issues @ [''Name must be at least 2 characters long''] else issues);
          issues = (if background c = [] \<or> length (str_strip (background c)) < 10
                    then issues @ [''Background must be at least 10 characters long'']
                    else issues);
          issues = (if goals c = [] \<or> length (str_strip (goals c)) < 10
                    then issues @ [''Goals must be at least 10 characters long''] else issues);
          issues = (if world c = []
                    then issues @ [''World must be specified''] else issues);
          issues = (if length (name c) > 100
                    then issues @ [''Name is too long (max 100 characters)''] else issues);
          issues = (if length (background c) > 1000
                    then issues @ [''Background is too long (max 1000 characters)'']
                    else issues);
          issues = (if length (goals c) > 500
                    then issues @ [''Goals are too long (max 500 characters)''] else issues)
      in (length issues = 0, issues))"

section \<open>Story history (\<open>decision.py\<close>)\<close>

text \<open>
  The type \<open>'dt\<close> stands for \<open>datetime\<close>. A value that the source reads from the clock
  (\<open>datetime.now()\<close>, and the chunk identifier formatted from it) is an argument of the
  operation that reads it. The field \<open>text\<close> of a chunk is \<open>chunk_text\<close> here, and the
  two \<open>timestamp\<close> fields are told apart by their class.
\<close>

record 'dt StoryChunk =
  chunk_text :: string
  chunk_timestamp :: 'dt
  chunk_id :: string
  decision_options :: "string list"

record 'dt DecisionEntry =
  decision_text :: string
  options_available :: "string list"
  chosen_index :: int
  decision_timestamp :: 'dt

record 'dt StoryHistory =
  session_id :: string
  character_name :: string
  world_type :: string
  story_chunks :: "'dt StoryChunk list"
  decisions :: "'dt DecisionEntry list"
  created_at :: 'dt
  last_updated :: 'dt

text \<open>\<open>StoryHistory(session_id=..., character_name=..., world_type=...)\<close>.\<close>

definition new_history :: "string \<Rightarrow> string \<Rightarrow> string \<Rightarrow> 'dt \<Rightarrow> 'dt StoryHistory" where
  "new_history sid cname wtype now =
     \<lparr>session_id = sid, character_name = cname, world_type = wtype,
      story_chunks = [], decisions = [], created_at = now, last_updated = now\<rparr>"

text \<open>\<open>options or []\<close>: the options are optional, and \<open>None\<close> stands for the empty list.\<close>

definition add_story_chunk ::
  "'dt StoryHistory \<Rightarrow> string \<Rightarrow> string list option \<Rightarrow> 'dt \<Rightarrow> string \<Rightarrow> 'dt StoryHistory"
where
  "add_story_chunk h txt options now cid =
     (let chunk = \<lparr>chunk_text = txt, chunk_timestamp = now, chunk_id = cid,
                   decision_options = (case options of None \<Rightarrow> [] | Some os \<Rightarrow> os)\<rparr>
      in h\<lparr>story_chunks := story_chunks h @ [chunk], last_updated := now\<rparr>)"

definition add_decision ::
  "'dt StoryHistory \<Rightarrow> string \<Rightarrow> string list \<Rightarrow> int \<Rightarrow> 'dt \<Rightarrow> 'dt StoryHistory"
where
  "add_decision h dtext available_options idx now =
     (let decision = \<lparr>decision_text = dtext, options_available = available_options,
                      chosen_index = idx, decision_timestamp = now\<rparr>
      in h\<lparr>decisions := decisions h @ [decision], last_updated := now\<rparr>)"

text \<open>
  The slice \<open>xs[i:]\<close>: a negative start counts from the end and is clamped at the start
  of the list; \<open>xs[-0:]\<close> is \<open>xs[0:]\<close>, the whole list.
\<close>

definition slice_from :: "'a list \<Rightarrow> int \<Rightarrow> 'a list" where
  "slice_from xs i =
     (if i < 0 then drop (nat (max 0 (int (length xs) + i))) xs else drop (nat i) xs)"

definition get_recent_context :: "'dt StoryHistory \<Rightarrow> int \<Rightarrow> string" where
  "get_recent_context h num_chunks =
     (if story_chunks h = [] then []
      else
        let recent_chunks = slice_from (story_chunks h) (- num_chunks);
            context_parts = map chunk_text recent_chunks;
            context_parts =
              (if decisions h \<noteq> [] \<and> length (story_chunks h) > length (decisions h)
               then context_parts
                      @ [newline @ ''[Last Decision: '' @ decision_text (last (decisions h))
                           @ '']'']
               else context_parts)
        in str_join (newline @ newline) context_parts)"

subsection \<open>Serialization\<close>

text \<open>
  The dictionaries that \<open>to_dict\<close> builds and \<open>from_dict\<close> reads are JSON values. An
  object is an association list with distinct keys.
\<close>

datatype json =
  JNull | JBool bool | JInt int | JStr string | JList "json list"
  | JObj "(string \<times> json) list"

datatype py_error = KeyError string | TypeError | ValueError | JSONDecodeError

definition bind_err :: "py_error + 'a \<Rightarrow> ('a \<Rightarrow> py_error + 'b) \<Rightarrow> py_error + 'b" where
  "bind_err r f = (case r of Inl e \<Rightarrow> Inl e | Inr x \<Rightarrow> f x)"

fun map_err :: "('a \<Rightarrow> py_error + 'b) \<Rightarrow> 'a list \<Rightarrow> py_error + 'b list" where
  "map_err f [] = Inr []"
| "map_err f (x # xs) =
     bind_err (f x) (\<lambda>y. bind_err (map_err f xs) (\<lambda>ys. Inr (y # ys)))"

text \<open>\<open>data[key]\<close> and \<open>data.get(key, default)\<close>.\<close>

definition get_item :: "json \<Rightarrow> string \<Rightarrow> py_error + json" where
  "get_item data key =
     (case data of
        JObj kvs \<Rightarrow> (case map_of kvs key of None \<Rightarrow> Inl (KeyError key) | Some v \<Rightarrow> Inr v)
      | _ \<Rightarrow> Inl TypeError)"

definition get_default :: "json \<Rightarrow> string \<Rightarrow> json \<Rightarrow> py_error + json" where
  "get_default data key dflt =
     (case data of
        JObj kvs \<Rightarrow> (case map_of kvs key of None \<Rightarrow> Inr dflt | Some v \<Rightarrow> Inr v)
      | _ \<Rightarrow> Inl TypeError)"

text \<open>
  Python stores whatever value a dictionary holds. The records of the model hold values
  of the annotated types only, and a JSON value of another type is a \<open>TypeError\<close> here.
\<close>

definition as_str :: "json \<Rightarrow> py_error + string" where
  "as_str j = (case j of JStr s \<Rightarrow> Inr s | _ \<Rightarrow> Inl TypeError)"

definition as_int :: "json \<Rightarrow> py_error + int" where
  "as_int j = (case j of JInt i \<Rightarrow> Inr i | _ \<Rightarrow> Inl TypeError)"

definition as_list :: "json \<Rightarrow> py_error + json list" where
  "as_list j = (case j of JList xs \<Rightarrow> Inr xs | _ \<Rightarrow> Inl TypeError)"

definition as_str_list :: "json \<Rightarrow> py_error + string list" where
  "as_str_list j = bind_err (as_list j) (map_err as_str)"

text \<open>
  \<open>datetime.fromisoformat(x)\<close>, for the library function \<open>parse\<close>: \<open>TypeError\<close> on a value
  that is not a string, \<open>ValueError\<close> on a string that is not a date.
\<close>

definition as_datetime :: "(string \<Rightarrow> 'dt option) \<Rightarrow> json \<Rightarrow> py_error + 'dt" where
  "as_datetime parse j =
     bind_err (as_str j)
       (\<lambda>s. case parse s of None \<Rightarrow> Inl ValueError | Some d \<Rightarrow> Inr d)"

definition StoryChunk_to_dict :: "('dt \<Rightarrow> string) \<Rightarrow> 'dt StoryChunk \<Rightarrow> json" where
  "StoryChunk_to_dict isoformat c =
     JObj [(''text'', JStr (chunk_text c)),
           (''timestamp'', JStr (isoformat (chunk_timestamp c))),
           (''chunk_id'', JStr (chunk_id c)),
           (''decision_options'', JList (map JStr (decision_options c)))]"

definition StoryChunk_from_dict ::
  "(string \<Rightarrow> 'dt option) \<Rightarrow> json \<Rightarrow> py_error + 'dt StoryChunk"
where
  "StoryChunk_from_dict fromisoformat data =
     bind_err (bind_err (get_item data ''text'') as_str) (\<lambda>txt.
     bind_err (bind_err (get_item data ''timestamp'') (as_datetime fromisoformat)) (\<lambda>ts.
     bind_err (bind_err (get_item data ''chunk_id'') as_str) (\<lambda>cid.
     bind_err (bind_err (get_default data ''decision_options'' (JList [])) as_str_list) (\<lambda>os.
     Inr \<lparr>chunk_text = txt, chunk_timestamp = ts, chunk_id = cid,
          decision_options = os\<rparr>))))"

definition DecisionEntry_to_dict :: "('dt \<Rightarrow> string) \<Rightarrow> 'dt DecisionEntry \<Rightarrow> json" where
  "DecisionEntry_to_dict isoformat d =
     JObj [(''decision_text'', JStr (decision_text d)),
           (''options_available'', JList (map JStr (options_available d))),
           (''chosen_index'', JInt (chosen_index d)),
           (''timestamp'', JStr (isoformat (decision_timestamp d)))]"

definition DecisionEntry_from_dict ::
  "(string \<Rightarrow> 'dt option) \<Rightarrow> json \<Rightarrow> py_error + 'dt DecisionEntry"
where
  "DecisionEntry_from_dict fromisoformat data =
     bind_err (bind_err (get_item data ''decision_text'') as_str) (\<lambda>dtext.
     bind_err (bind_err (get_item data ''options_available'') as_str_list) (\<lambda>os.
     bind_err (bind_err (get_item data ''chosen_index'') as_int) (\<lambda>idx.
     bind_err (bind_err (get_item data ''timestamp'') (as_datetime fromisoformat)) (\<lambda>ts.
     Inr \<lparr>decision_text = dtext, options_available = os, chosen_index = idx,
          decision_timestamp = ts\<rparr>))))"

definition to_dict :: "('dt \<Rightarrow> string) \<Rightarrow> 'dt StoryHistory \<Rightarrow> json" where
  "to_dict isoformat h =
     JObj [(''session_id'', JStr (session_id h)),
           (''character_name'', JStr (character_name h)),
           (''world_type'', JStr (world_type h)),
           (''story_chunks'', JList (map (StoryChunk_to_dict isoformat) (story_chunks h))),
           (''decisions'', JList (map (DecisionEntry_to_dict isoformat) (decisions h))),
           (''created_at'', JStr (isoformat (created_at h))),
           (''last_updated'', JStr (isoformat (last_updated h)))]"

definition from_dict :: "(string \<Rightarrow> 'dt option) \<Rightarrow> json \<Rightarrow> py_error + 'dt StoryHistory" where
  "from_dict fromisoformat data =
     bind_err (bind_err (get_item data ''session_id'') as_str) (\<lambda>sid.
     bind_err (bind_err (get_item data ''character_name'') as_str) (\<lambda>cname.
     bind_err (bind_err (get_item data ''world_type'') as_str) (\<lambda>wtype.
     bind_err (bind_err (bind_err (get_default data ''story_chunks'' (JList [])) as_list)
                 (map_err (StoryChunk_from_dict fromisoformat))) (\<lambda>chunks.
     bind_err (bind_err (bind_err (get_default data ''decisions'' (JList [])) as_list)
                 (map_err (DecisionEntry_from_dict fromisoformat))) (\<lambda>ds.
     bind_err (bind_err (get_item data ''created_at'') (as_datetime fromisoformat)) (\<lambda>created.
     bind_err (bind_err (get_item data ''last_updated'') (as_datetime fromisoformat)) (\<lambda>updated.
     Inr \<lparr>session_id = sid, character_name = cname, world_type = wtype,
          story_chunks = chunks, decisions = ds,
          created_at = created, last_updated = updated\<rparr>)))))))"

text \<open>
  \<open>to_json\<close> and \<open>from_json\<close> go through the standard library: \<open>dumps\<close> is
  \<open>json.dumps(_, indent=2)\<close> and \<open>loads\<close> is \<open>json.loads\<close> (\<open>None\<close> when it raises),
  \<open>isoformat\<close> and \<open>fromisoformat\<close> are the methods of \<open>datetime\<close>. They are parameters
  of the model, and \<open>'t\<close> is the type of the serialized text.
\<close>

definition to_json :: "(json \<Rightarrow> 't) \<Rightarrow> ('dt \<Rightarrow> string) \<Rightarrow> 'dt StoryHistory \<Rightarrow> 't" where
  "to_json dumps isoformat h = dumps (to_dict isoformat h)"

definition from_json ::
  "('t \<Rightarrow> json option) \<Rightarrow> (string \<Rightarrow> 'dt option) \<Rightarrow> 't \<Rightarrow> py_error + 'dt StoryHistory"
where
  "from_json loads fromisoformat json_str =
     (case loads json_str of
        None \<Rightarrow> Inl JSONDecodeError
      | Some data \<Rightarrow> from_dict fromisoformat data)"

section \<open>Retry with backoff (\<open>Config.retry_with_backoff\<close>)\<close>

definition rate_limit_keywords :: "string list" where
  "rate_limit_keywords = [''rate limit'', ''429'', ''quota'', ''too many requests'']"

text \<open>\<open>any(keyword in str(e).lower() for keyword in [...])\<close>.\<close>

definition is_rate_limit :: "string \<Rightarrow> bool" where
  "is_rate_limit e = list_ex (\<lambda>keyword. sublist keyword (str_lower e)) rate_limit_keywords"

text \<open>
  The operation \<open>func\<close> has effects of its own: it is a function from its state to an outcome
  (\<open>Inl\<close> the text of the exception it raises, \<open>Inr\<close> the value it returns) and the next
  state. The world also records the delays passed to \<open>time.sleep\<close>, in order, and counts
  the invocations of \<open>func\<close>. Delays are real numbers.
\<close>

record 's world =
  op_state :: 's
  sleeps :: "real list"
  calls :: nat

text \<open>\<open>time.sleep(d)\<close> raises \<open>ValueError\<close> on a negative delay.\<close>

definition time_sleep :: "real \<Rightarrow> 's world \<Rightarrow> string + 's world" where
  "time_sleep d w =
     (if d < 0 then Inl ''sleep length must be non-negative''
      else Inr (w\<lparr>sleeps := sleeps w @ [d]\<rparr>))"

definition invoke :: "('s \<Rightarrow> (string + 'a) \<times> 's) \<Rightarrow> 's world \<Rightarrow> (string + 'a) \<times> 's world" where
  "invoke func w =
     (case func (op_state w) of
        (r, s') \<Rightarrow> (r, w\<lparr>op_state := s', calls := calls w + 1\<rparr>))"

text \<open>
  The loop \<open>for attempt in range(max_retries + 1)\<close>, from \<open>attempt\<close> on. The result is
  \<open>Inl e\<close> when the exception \<open>e\<close> leaves the function, \<open>Inr (Some v)\<close> when it returns
  \<open>v\<close>, and \<open>Inr None\<close> when the loop ends and the function returns nothing.
\<close>

function retry_loop ::
  "('s \<Rightarrow> (string + 'a) \<times> 's) \<Rightarrow> int \<Rightarrow> real \<Rightarrow> int \<Rightarrow> 's world
     \<Rightarrow> (string + 'a option) \<times> 's world"
where
  "retry_loop func max_retries base_delay attempt w =
     (if attempt < max_retries + 1 then
        (case invoke func w of
           (Inr v, w') \<Rightarrow> (Inr (Some v), w')
         | (Inl e, w') \<Rightarrow>
             if attempt = max_retries then (Inl e, w')
             else if is_rate_limit e then
               (case time_sleep (base_delay * 2 ^ nat attempt) w' of
                  Inl err \<Rightarrow> (Inl err, w')
                | Inr w'' \<Rightarrow> retry_loop func max_retries base_delay (attempt + 1) w'')
             else (Inl e, w'))
      else (Inr None, w))"
  by pat_completeness auto
termination
  by (relation "measure (\<lambda>(func, max_retries, base_delay, attempt, w).
                   nat (max_retries + 1 - attempt))") auto

definition retry_with_backoff ::
  "('s \<Rightarrow> (string + 'a) \<times> 's) \<Rightarrow> int \<Rightarrow> real \<Rightarrow> 's world
     \<Rightarrow> (string + 'a option) \<times> 's world"
where
  "retry_with_backoff func max_retries base_delay w =
     retry_loop func max_retries base_delay 0 w"

section \<open>Session operations (\<open>app.py\<close>)\<close>

text \<open>
  The part of the Streamlit session state that the story operations read and write.
  Page numbers, the saved-story identifier and the automatic save are left out: the save
  only reads the history.
\<close>

record 'dt Session =
  story_history :: "'dt StoryHistory option"
  current_options :: "string list"
  story_started :: bool
  waiting_for_choice :: bool
  last_story_error :: "string option"

text \<open>\<open>initialize_session_state\<close>.\<close>

definition initial_session :: "'dt Session" where
  "initial_session =
     \<lparr>story_history = None, current_options = [], story_started = False,
      waiting_for_choice = False, last_story_error = None\<rparr>"

text \<open>
  What the story engine does when an operation asks it for text: it is not available
  (\<open>engine.is_available()\<close> is false), or \<open>start_story\<close>/\<open>continue_story\<close> returns a text
  and options, or an exception leaves the \<open>try\<close> block.
\<close>

datatype engine_result = Unavailable | Returned string "string list" | Raised string

text \<open>\<open>xs[i]\<close>, \<open>None\<close> for \<open>IndexError\<close>: a negative index counts from the end.\<close>

definition list_index :: "'a list \<Rightarrow> int \<Rightarrow> 'a option" where
  "list_index xs i =
     (let j = (if i < 0 then int (length xs) + i else i)
      in if 0 \<le> j \<and> j < int (length xs) then Some (xs ! nat j) else None)"

text \<open>
  \<open>start_new_story\<close>; \<open>stamp\<close> is the formatted time in the session identifier. \<open>Inl\<close> is
  an exception that leaves the operation.
\<close>

definition start_new_story ::
  "Character \<Rightarrow> string \<Rightarrow> engine_result \<Rightarrow> 'dt \<Rightarrow> string \<Rightarrow> 'dt Session \<Rightarrow> 'dt Session"
where
  "start_new_story character stamp outcome now cid s =
     (let h = new_history (name character @ ''_'' @ stamp) (name character) (world character) now;
          s1 = s\<lparr>story_history := Some h\<rparr>
      in case outcome of
           Unavailable \<Rightarrow> s1
         | Returned story_text options \<Rightarrow>
             s1\<lparr>story_history := Some (add_story_chunk h story_text (Some options) now cid),
                current_options := options, story_started := True,
                waiting_for_choice := True, last_story_error := None\<rparr>
         | Raised error_msg \<Rightarrow> s1\<lparr>last_story_error := Some error_msg\<rparr>)"

definition make_decision ::
  "int \<Rightarrow> engine_result \<Rightarrow> 'dt \<Rightarrow> string \<Rightarrow> 'dt Session \<Rightarrow> string + 'dt Session"
where
  "make_decision choice_index outcome now cid s =
     (if current_options s = [] \<or> choice_index \<ge> int (length (current_options s)) then Inr s
      else
        case list_index (current_options s) choice_index of
          None \<Rightarrow> Inl ''IndexError''
        | Some chosen_option \<Rightarrow>
            (case story_history s of
               None \<Rightarrow> Inl ''AttributeError''
             | Some h \<Rightarrow>
                 let h1 = add_decision h chosen_option (current_options s) choice_index now;
                     s1 = s\<lparr>story_history := Some h1\<rparr>
                 in case outcome of
                      Unavailable \<Rightarrow> Inr s1
                    | Returned story_text new_options \<Rightarrow>
                        Inr (s1\<lparr>story_history :=
                                   Some (add_story_chunk h1 story_text (Some new_options) now cid),
                                 current_options := new_options,
                                 waiting_for_choice := True, last_story_error := None\<rparr>)
                    | Raised error_msg \<Rightarrow> Inr (s1\<lparr>last_story_error := Some error_msg\<rparr>)))"

text \<open>\<open>restart_story\<close>.\<close>

definition restart_story :: "'dt Session \<Rightarrow> 'dt Session" where
  "restart_story s =
     s\<lparr>story_history := None, current_options := [], story_started := False,
       waiting_for_choice := False, last_story_error := None\<rparr>"

text \<open>The invariant of the history.\<close>

definition history_invariant :: "'dt StoryHistory \<Rightarrow> bool" where
  "history_invariant h \<longleftrightarrow> length (decisions h) \<le> length (story_chunks h)"

section \<open>Example inputs\<close>

definition four_choices :: "string list" where
  "four_choices = [''Go left'', ''Go right'', ''Climb a tree'', ''Call for help'']"

definition test_hero :: Character where
  "test_hero =
     \<lparr>name = ''Test Hero'',
      background = ''A brave adventurer seeking their destiny in a magical world.'',
      traits = [''brave'', ''curious'', ''loyal''],
      goals = ''To find the legendary artifact and save their homeland.'',
      world = ''fantasy''\<rparr>"

text \<open>A session in which the story has started and the first chunk awaits a choice.\<close>

definition started_session :: "nat Session" where
  "started_session =
     start_new_story test_hero ''20240101_120000''
       (Returned ''You find yourself in a dark forest...'' four_choices)
       0 ''chunk_20240101_120000'' initial_session"

definition hello_response :: string where
  "hello_response =
     ''Hello'' @ newline @ ''DECISION_POINT'' @ newline
       @ ''1. A'' @ newline @ ''2. B'' @ newline @ ''3. C'' @ newline @ ''4. D''"

definition short_response :: string where
  "short_response = ''Hello'' @ newline @ ''DECISION_POINT'' @ newline @ ''1. A''"

text \<open>A text with a second delimiter, and option lines before and after it.\<close>

definition two_delimiter_response :: string where
  "two_delimiter_response =
     ''Hello'' @ newline @ ''DECISION_POINT'' @ newline @ ''1. A'' @ newline
       @ ''DECISION_POINT'' @ newline @ ''2. B'' @ newline @ ''3. C''"

text \<open>A character whose name is one letter and one space.\<close>

definition padded_name_character :: Character where
  "padded_name_character =
     \<lparr>name = ''A '',
      background = ''A brave adventurer seeking their destiny in a magical world.'',
      traits = [],
      goals = ''To find the legendary artifact and save their homeland.'',
      world = ''fantasy''\<rparr>"

text \<open>A history with two chunks and the decision taken after the first.\<close>

definition awaiting_second_choice :: "nat StoryHistory" where
  "awaiting_second_choice =
     add_story_chunk
       (add_decision
          (add_story_chunk (new_history ''test_session'' ''Test Hero'' ''fantasy'' 0)
             ''You find yourself in a dark forest...'' (Some four_choices) 0 ''chunk_a'')
          ''Go left'' four_choices 0 1)
       ''The path narrows.'' (Some four_choices) 2 ''chunk_b''"

text \<open>The same history with its timestamps as ISO texts.\<close>

definition saved_history :: "string StoryHistory" where
  "saved_history =
     add_story_chunk
       (add_decision
          (add_story_chunk
             (new_history ''test_session'' ''Test Hero'' ''fantasy'' ''2024-01-01T12:00:00'')
             ''You find yourself in a dark forest...'' (Some four_choices)
             ''2024-01-01T12:00:00'' ''chunk_a'')
          ''Go left'' four_choices 0 ''2024-01-01T12:01:00'')
       ''The path narrows.'' (Some four_choices) ''2024-01-01T12:02:00'' ''chunk_b''"

text \<open>
  The story has started; the user then chooses the first option twice while the engine is
  not available.
\<close>

definition after_failed_choices :: "string + nat Session" where
  "after_failed_choices =
     (case make_decision 0 Unavailable 1 ''chunk_20240101_120001'' started_session of
        Inl e \<Rightarrow> Inl e
      | Inr s \<Rightarrow> make_decision 0 Unavailable 2 ''chunk_20240101_120002'' s)"

text \<open>The numbers of decisions and of chunks in the history of a session.\<close>

definition history_sizes :: "string + 'dt Session \<Rightarrow> (nat \<times> nat) option" where
  "history_sizes r =
     (case r of
        Inl e \<Rightarrow> None
      | Inr s \<Rightarrow>
          map_option (\<lambda>h. (length (decisions h), length (story_chunks h))) (story_history s))"

text \<open>
  An operation that raises a rate-limit error on its first two invocations and returns
  on the third, and one that always raises another error. Their state counts the
  invocations.
\<close>

definition flaky :: "nat \<Rightarrow> (string + string) \<times> nat" where
  "flaky n = (if n < 2 then Inl ''429 rate limit'' else Inr ''Once upon a time'', n + 1)"

definition broken :: "nat \<Rightarrow> (string + string) \<times> nat" where
  "broken n = (Inl ''API key not valid'', n + 1)"

section \<open>Notions used in the statements\<close>

text \<open>
  The state of the operation after \<open>n\<close> invocations, and the outcome of invocation number
  \<open>n\<close> (counted from 0).
\<close>

definition state_after :: "('s \<Rightarrow> (string + 'a) \<times> 's) \<Rightarrow> nat \<Rightarrow> 's \<Rightarrow> 's" where
  "state_after func n s = ((\<lambda>x. snd (func x)) ^^ n) s"

definition outcome :: "('s \<Rightarrow> (string + 'a) \<times> 's) \<Rightarrow> nat \<Rightarrow> 's \<Rightarrow> string + 'a" where
  "outcome func n s = fst (func (state_after func n s))"

text \<open>The first \<open>k\<close> delays of the backoff: \<open>base_delay * 2^j\<close> for \<open>j = 0, ..., k - 1\<close>.\<close>

definition backoff_delays :: "real \<Rightarrow> nat \<Rightarrow> real list" where
  "backoff_delays base_delay k = map (\<lambda>j. base_delay * 2 ^ j) [0..<k]"

text \<open>The world after \<open>n\<close> invocations of the operation and the first \<open>k\<close> backoff delays.\<close>

definition world_after ::
  "('s \<Rightarrow> (string + 'a) \<times> 's) \<Rightarrow> real \<Rightarrow> nat \<Rightarrow> nat \<Rightarrow> 's world \<Rightarrow> 's world"
where
  "world_after func base_delay n k w =
     \<lparr>op_state = state_after func n (op_state w),
      sleeps = sleeps w @ backoff_delays base_delay k,
      calls = calls w + n\<rparr>"

text \<open>
  The words of the specification for an option line: after trimming, a digit 1 to 4, then
  \<open>.\<close> or \<open>)\<close>, then text; the option is that text, trimmed.
\<close>

definition spec_option_text :: "string \<Rightarrow> string option" where
  "spec_option_text line =
     (case str_strip line of
        d # p # rest \<Rightarrow>
          if d \<in> set ''1234'' \<and> p \<in> set ''.)'' \<and> rest \<noteq> []
          then Some (str_strip rest) else None
      | _ \<Rightarrow> None)"

text \<open>
  The words of the specification for the options of a text with the delimiter: the options
  of the option lines of the text after the first delimiter, in document order, padded with
  the fixed options and cut to four.
\<close>

definition spec_options :: "string \<Rightarrow> string list" where
  "spec_options post =
     take 4 (List.map_filter spec_option_text (str_split newline post) @ padding_options)"

text \<open>
  The words of the specification for \<open>validate\<close> and for \<open>get_recent_context\<close>: the lengths
  of the fields as they are, and the texts of the last \<open>min(n, k)\<close> chunks concatenated.
\<close>

definition spec_valid :: "Character \<Rightarrow> bool" where
  "spec_valid c \<longleftrightarrow>
     2 \<le> length (name c) \<and> length (name c) \<le> 100
     \<and> 10 \<le> length (background c) \<and> length (background c) \<le> 1000
     \<and> 10 \<le> length (goals c) \<and> length (goals c) \<le> 500
     \<and> world c \<noteq> []"

definition spec_recent_context :: "'dt StoryHistory \<Rightarrow> nat \<Rightarrow> string" where
  "spec_recent_context h n =
     (let k = length (story_chunks h)
      in concat (map chunk_text (drop (k - min n k) (story_chunks h))))"

declare retry_loop.simps [simp del]

section \<open>Properties of the parser\<close>

lemma length_padding_options: "length padding_options = 4"
  by (simp add: padding_options_def)

lemma length_exactly_four: "length (exactly_four options) = 4"
  by (simp add: exactly_four_def length_padding_options)

lemma exactly_four_take: "exactly_four options = take 4 (options @ padding_options)"
  by (simp add: exactly_four_def)

text \<open>
  Claim C1. For every input string the parser returns one narrative string and a list of
  exactly four option strings, never fewer and never more.
\<close>

theorem parse_response_four_options:
  "length (snd (parse_response response)) = 4"
  by (simp add: parse_response_def Let_def length_exactly_four fallback_options_def)

theorem parse_response_four_options_witness:
  "length (snd (parse_response short_response)) = 4"
  by (rule parse_response_four_options)

subsection \<open>Splitting at the delimiter\<close>

lemma str_split_no_sep: "\<not> sublist sep s \<Longrightarrow> str_split sep s = [s]"
proof (induction s)
  case Nil
  then show ?case by simp
next
  case (Cons c cs)
  from Cons.prems have np: "\<not> prefix sep (c # cs)" and ns: "\<not> sublist sep cs"
    by (auto simp: sublist_Cons_right)
  from Cons.IH [OF ns] np show ?case by simp
qed

text \<open>
  An occurrence of the separator at which no earlier occurrence starts is where \<open>split\<close>
  cuts first.
\<close>

lemma str_split_at_first:
  assumes "sep \<noteq> []" and "\<not> sublist sep (pre @ butlast sep)"
  shows "str_split sep (pre @ sep @ post) = pre # str_split sep post"
  using assms(2)
proof (induction pre)
  case Nil
  from assms(1) obtain c cs where sep: "sep = c # cs" by (cases sep) auto
  have "str_split sep ((c # cs) @ post)
          = [] # str_split sep (drop (length sep) ((c # cs) @ post))"
    using assms(1) by (simp add: sep)
  then show ?case by (simp add: sep)
next
  case (Cons a pre)
  have ns: "\<not> sublist sep (pre @ butlast sep)"
    using Cons.prems by (auto simp: sublist_Cons_right)
  have np: "\<not> prefix sep (a # pre @ sep @ post)"
  proof
    assume p: "prefix sep (a # pre @ sep @ post)"
    have "a # pre @ sep @ post = (a # pre @ butlast sep) @ (last sep # post)"
      using assms(1) by simp
    moreover have "length sep \<le> length (a # pre @ butlast sep)" by simp
    ultimately have "prefix sep (a # pre @ butlast sep)"
      using p by (metis prefix_length_prefix prefixI)
    then show False using Cons.prems by auto
  qed
  from Cons.IH [OF ns] np show ?case by simp
qed

text \<open>
  The delimiter does not overlap itself: its first letter occurs in it only once. So an
  occurrence that starts inside \<open>pre\<close> lies inside \<open>pre\<close>.
\<close>

lemma DECISION_POINT_no_border:
  assumes "sublist DECISION_POINT (pre @ butlast DECISION_POINT)"
  shows "sublist DECISION_POINT pre"
proof -
  let ?D = "DECISION_POINT" and ?B = "butlast DECISION_POINT"
  have nB: "\<not> sublist ?D ?B"
    using sublist_length_le [of ?D ?B] by (auto simp: DECISION_POINT_def)
  from assms nB consider "sublist ?D pre"
    | xs1 xs2 where "?D = xs1 @ xs2" "suffix xs1 pre" "prefix xs2 ?B"
    by (auto simp: sublist_append)
  then show ?thesis
  proof cases
    case 1
    then show ?thesis .
  next
    case 2
    show ?thesis
    proof (cases xs2)
      case Nil
      with 2 show ?thesis by auto
    next
      case (Cons x xs2')
      with 2(3) have x: "x = CHR ''D''" by (simp add: DECISION_POINT_def)
      show ?thesis
      proof (cases xs1)
        case Nil
        with 2(1,3) have "prefix ?D ?B" by simp
        from prefix_length_le [OF this] show ?thesis by (simp add: DECISION_POINT_def)
      next
        case (Cons y xs1')
        with 2(1) \<open>xs2 = x # xs2'\<close> have "tl ?D = xs1' @ x # xs2'"
          by (metis list.sel(3) append_Cons)
        then have "x \<in> set (tl ?D)" by simp
        with x show ?thesis by (simp add: DECISION_POINT_def)
      qed
    qed
  qed
qed

lemma str_split_DECISION_POINT:
  assumes "\<not> sublist DECISION_POINT pre" and "\<not> sublist DECISION_POINT seg"
    and "rest = [] \<or> prefix DECISION_POINT rest"
  shows "\<exists>parts. str_split DECISION_POINT (pre @ DECISION_POINT @ seg @ rest)
                   = pre # seg # parts"
proof -
  have ne: "DECISION_POINT \<noteq> []" by (simp add: DECISION_POINT_def)
  have a: "str_split DECISION_POINT (pre @ DECISION_POINT @ seg @ rest)
             = pre # str_split DECISION_POINT (seg @ rest)"
    using assms(1) DECISION_POINT_no_border by (intro str_split_at_first [OF ne]) blast
  from assms(3) show ?thesis
  proof
    assume "rest = []"
    with a str_split_no_sep [OF assms(2)] show ?thesis by simp
  next
    assume "prefix DECISION_POINT rest"
    then obtain rest' where "rest = DECISION_POINT @ rest'" by (auto simp: prefix_def)
    moreover have "str_split DECISION_POINT (seg @ DECISION_POINT @ rest')
                     = seg # str_split DECISION_POINT rest'"
      using assms(2) DECISION_POINT_no_border by (intro str_split_at_first [OF ne]) blast
    ultimately show ?thesis using a by simp
  qed
qed

text \<open>
  Every text that contains the delimiter splits in this way: the text before the first
  occurrence, the segment up to the next occurrence or the end, and the rest.
\<close>

lemma first_occurrence:
  assumes "sep \<noteq> []" and "sublist sep s"
  shows "\<exists>pre post. s = pre @ sep @ post \<and> \<not> sublist sep pre"
  using assms(2)
proof (induction "length s" arbitrary: s rule: less_induct)
  case less
  from less.prems obtain pre post where s: "s = pre @ sep @ post"
    by (auto simp: sublist_def)
  show ?case
  proof (cases "sublist sep pre")
    case False
    with s show ?thesis by blast
  next
    case True
    from s assms(1) have "length pre < length s" by simp
    from less.hyps [OF this True] obtain p1 p2
      where "pre = p1 @ sep @ p2" "\<not> sublist sep p1" by blast
    with s have "s = p1 @ sep @ (p2 @ sep @ post) \<and> \<not> sublist sep p1" by simp
    then show ?thesis by blast
  qed
qed

lemma delimiter_decomposition:
  assumes "sublist DECISION_POINT response"
  shows "\<exists>pre seg rest. response = pre @ DECISION_POINT @ seg @ rest
           \<and> \<not> sublist DECISION_POINT pre \<and> \<not> sublist DECISION_POINT seg
           \<and> (rest = [] \<or> prefix DECISION_POINT rest)"
proof -
  have ne: "DECISION_POINT \<noteq> []" by (simp add: DECISION_POINT_def)
  from first_occurrence [OF ne assms] obtain pre post
    where r: "response = pre @ DECISION_POINT @ post" "\<not> sublist DECISION_POINT pre" by blast
  show ?thesis
  proof (cases "sublist DECISION_POINT post")
    case False
    with r have "response = pre @ DECISION_POINT @ post @ []
        \<and> \<not> sublist DECISION_POINT pre \<and> \<not> sublist DECISION_POINT post
        \<and> ([] = [] \<or> prefix DECISION_POINT [])" by simp
    then show ?thesis by blast
  next
    case True
    from first_occurrence [OF ne True] obtain seg rest'
      where "post = seg @ DECISION_POINT @ rest'" "\<not> sublist DECISION_POINT seg" by blast
    with r have "response = pre @ DECISION_POINT @ seg @ (DECISION_POINT @ rest')
        \<and> \<not> sublist DECISION_POINT pre \<and> \<not> sublist DECISION_POINT seg
        \<and> (DECISION_POINT @ rest' = [] \<or> prefix DECISION_POINT (DECISION_POINT @ rest'))"
      by simp
    then show ?thesis by blast
  qed
qed

subsection \<open>The option lines\<close>

lemma str_split_pieces_no_sep: "p \<in> set (str_split [c] s) \<Longrightarrow> c \<notin> set p"
proof (induction "[c]" s arbitrary: p rule: str_split.induct)
  case 1
  then show ?case by simp
next
  case (2 c' cs)
  show ?case
  proof (cases "c' = c")
    case True
    with 2 show ?thesis by auto
  next
    case False
    with 2 show ?thesis by (auto split: list.splits)
  qed
qed

lemma set_str_strip: "set (str_strip s) \<subseteq> set s"
  by (auto simp: str_strip_def dest!: set_dropWhileD)

lemma last_str_strip: "str_strip s \<noteq> [] \<Longrightarrow> \<not> isspace (last (str_strip s))"
proof -
  assume ne: "str_strip s \<noteq> []"
  let ?ys = "dropWhile isspace (rev (dropWhile isspace s))"
  from ne have "?ys \<noteq> []" by (simp add: str_strip_def)
  then have "\<not> isspace (hd ?ys)" by (rule hd_dropWhile)
  moreover have "last (str_strip s) = hd ?ys" using \<open>?ys \<noteq> []\<close> by (simp add: str_strip_def last_rev)
  ultimately show ?thesis by simp
qed

lemma ws_then_text_no_newline:
  "CHR 0x0A \<notin> set xs \<Longrightarrow> dropWhile isspace xs \<noteq> [] \<Longrightarrow>
     ws_then_text xs = Some (dropWhile isspace xs)"
  by (induction xs) (auto simp: takeWhile_eq_all_conv)

lemma str_strip_dropWhile: "str_strip (dropWhile isspace xs) = str_strip xs"
  by (simp add: str_strip_def)

lemma match_option_spec:
  assumes "CHR 0x0A \<notin> set line"
  shows "map_option str_strip (match_option (str_strip line)) = spec_option_text line"
proof (cases "str_strip line")
  case Nil
  then show ?thesis by (simp add: match_option_def spec_option_text_def)
next
  case (Cons d t)
  show ?thesis
  proof (cases t)
    case Nil
    with Cons show ?thesis by (simp add: match_option_def spec_option_text_def)
  next
    case (Cons p rest)
    note l = \<open>str_strip line = d # t\<close> Cons
    show ?thesis
    proof (cases "rest = []")
      case True
      with l show ?thesis by (simp add: match_option_def spec_option_text_def)
    next
      case False
      from l have ne: "str_strip line \<noteq> []" by simp
      from last_str_strip [OF ne] l False have "\<not> isspace (last rest)" by simp
      with False have dw: "dropWhile isspace rest \<noteq> []"
        by (metis dropWhile_eq_Nil_conv last_in_set)
      from set_str_strip [of line] assms l have "CHR 0x0A \<notin> set rest" by auto
      from ws_then_text_no_newline [OF this dw] l False show ?thesis
        by (simp add: match_option_def spec_option_text_def str_strip_dropWhile)
    qed
  qed
qed

lemma extract_options_spec:
  "\<forall>l \<in> set ls. CHR 0x0A \<notin> set l \<Longrightarrow>
     extract_options ls = List.map_filter spec_option_text ls"
proof (induction ls)
  case Nil
  then show ?case by (simp add: List.map_filter_simps)
next
  case (Cons l ls)
  from Cons.prems have "spec_option_text l = map_option str_strip (match_option (str_strip l))"
    by (intro match_option_spec [symmetric]) simp
  with Cons show ?case
    by (cases "match_option (str_strip l)") (auto simp: List.map_filter_simps)
qed

text \<open>
  Claim C6. For every input string that does not contain the delimiter, the parser returns
  the whole input, trimmed, as the narrative, together with the fixed list of four generic
  options (cautious, bold, informational, creative). The parser is a total function: no
  input makes it raise.
\<close>

theorem parse_response_no_delimiter:
  assumes "\<not> sublist DECISION_POINT response"
  shows "parse_response response =
           (str_strip response,
            [''Continue cautiously'', ''Take a bold approach'',
             ''Seek more information'', ''Try a creative solution''])"
  using str_split_no_sep [OF assms]
  by (simp add: parse_response_def fallback_options_def)

theorem parse_response_no_delimiter_witness:
  "parse_response ''Just narrative, no marker'' =
     (''Just narrative, no marker'',
      [''Continue cautiously'', ''Take a bold approach'',
       ''Seek more information'', ''Try a creative solution''])"
proof -
  have ns: "\<not> sublist DECISION_POINT ''Just narrative, no marker''"
    by (simp add: DECISION_POINT_def sublist_code)
  have st: "str_strip ''Just narrative, no marker'' = ''Just narrative, no marker''"
    by (simp add: str_strip_def isspace_def)
  show ?thesis using parse_response_no_delimiter [OF ns] st by simp
qed

text \<open>
  Claim C5, as amended. When the text contains the delimiter, the narrative is the trimmed
  text before its first occurrence, and the options are those of the option lines of the
  trimmed segment between the first occurrence and the next one (the end of the text when
  there is none), in document order, padded with the fixed options and cut to four. What
  follows a second delimiter is not read. On the text of the example the result is
  \<open>Hello\<close> and \<open>A, B, C, D\<close>.
\<close>

theorem parse_response_with_delimiter:
  assumes "\<not> sublist DECISION_POINT pre" and "\<not> sublist DECISION_POINT seg"
    and "rest = [] \<or> prefix DECISION_POINT rest"
  shows "parse_response (pre @ DECISION_POINT @ seg @ rest) =
           (str_strip pre, spec_options (str_strip seg))"
proof -
  from str_split_DECISION_POINT [OF assms] obtain parts
    where p: "str_split DECISION_POINT (pre @ DECISION_POINT @ seg @ rest) = pre # seg # parts"
    by blast
  have "extract_options (str_split newline (str_strip seg))
          = List.map_filter spec_option_text (str_split newline (str_strip seg))"
    using str_split_pieces_no_sep [of _ "CHR 0x0A" "str_strip seg"]
    by (intro extract_options_spec) (auto simp: newline_def)
  then show ?thesis
    by (simp add: parse_response_def p exactly_four_take spec_options_def Let_def)
qed

theorem parse_response_with_delimiter_witness:
  "parse_response hello_response = (''Hello'', [''A'', ''B'', ''C'', ''D''])"
proof -
  let ?pre = "''Hello'' @ newline"
  let ?seg = "newline @ ''1. A'' @ newline @ ''2. B'' @ newline @ ''3. C'' @ newline @ ''4. D''"
  have a: "\<not> sublist DECISION_POINT ?pre"
    by (simp add: DECISION_POINT_def newline_def sublist_code)
  have b: "\<not> sublist DECISION_POINT ?seg"
    by (simp add: DECISION_POINT_def newline_def sublist_code)
  have c: "[] = [] \<or> prefix DECISION_POINT []" by simp
  have r: "hello_response = ?pre @ DECISION_POINT @ ?seg @ []"
    by (simp add: hello_response_def DECISION_POINT_def)
  have v: "str_strip ?pre = ''Hello''"
    by (simp add: str_strip_def newline_def isspace_def)
  have o: "spec_options (str_strip ?seg) = [''A'', ''B'', ''C'', ''D'']"
    by (simp add: spec_options_def str_strip_def newline_def isspace_def spec_option_text_def
          List.map_filter_simps)
  from parse_response_with_delimiter [OF a b c] r v o show ?thesis by simp
qed

text \<open>
  The claim as it is written reads the option lines of all the text after the delimiter.
  In a text with a second delimiter the parser reads the lines up to it only: the options
  \<open>B\<close> and \<open>C\<close> that follow it are lost, and padding options take their places.
\<close>

theorem parse_response_second_delimiter_counterexample:
  "two_delimiter_response =
     (''Hello'' @ newline) @ DECISION_POINT
       @ (newline @ ''1. A'' @ newline @ ''DECISION_POINT'' @ newline @ ''2. B'' @ newline
            @ ''3. C'')
   \<and> \<not> sublist DECISION_POINT (''Hello'' @ newline)
   \<and> spec_options
         (newline @ ''1. A'' @ newline @ ''DECISION_POINT'' @ newline @ ''2. B'' @ newline
            @ ''3. C'')
       = [''A'', ''B'', ''C'', ''Take a different approach'']
   \<and> parse_response two_delimiter_response
       = (''Hello'',
          [''A'', ''Take a different approach'', ''Wait and observe'', ''Act decisively''])
   \<and> snd (parse_response two_delimiter_response)
       \<noteq> spec_options
           (newline @ ''1. A'' @ newline @ ''DECISION_POINT'' @ newline @ ''2. B'' @ newline
              @ ''3. C'')"
  by code_simp

section \<open>Properties of the character\<close>

text \<open>
  Claim C7, as amended. \<open>validate\<close> returns success if and only if the trimmed name has at
  least 2 characters and the name at most 100, the trimmed background has at least 10
  characters and the background at most 1000, the trimmed goals have at least 10 characters
  and the goals at most 500, and the world is not empty.
\<close>

theorem validate_iff:
  "fst (validate c) \<longleftrightarrow>
     2 \<le> length (str_strip (name c)) \<and> length (name c) \<le> 100
     \<and> 10 \<le> length (str_strip (background c)) \<and> length (background c) \<le> 1000
     \<and> 10 \<le> length (str_strip (goals c)) \<and> length (goals c) \<le> 500
     \<and> world c \<noteq> []"
  by (auto simp: validate_def Let_def str_strip_def)

theorem validate_iff_witness: "fst (validate test_hero)"
proof -
  have "str_strip (name test_hero) = name test_hero"
    "str_strip (background test_hero) = background test_hero"
    "str_strip (goals test_hero) = goals test_hero"
    by (simp_all add: test_hero_def str_strip_def isspace_def)
  then show ?thesis
    using validate_iff [of test_hero] by (simp add: test_hero_def)
qed

text \<open>
  The claim as it is written bounds the lengths of the fields as they are. A name of one
  letter and one space has length 2, and \<open>validate\<close> rejects it.
\<close>

theorem validate_padded_name_counterexample:
  "spec_valid padded_name_character \<and> \<not> fst (validate padded_name_character)"
  by (simp add: spec_valid_def validate_def padded_name_character_def str_strip_def
        isspace_def)

subsection \<open>The prompt\<close>

lemma str_strip_whitespace_left: "isspace w \<Longrightarrow> str_strip (w # xs) = str_strip xs"
  by (simp add: str_strip_def)

lemma str_strip_whitespace_right: "isspace w \<Longrightarrow> str_strip (xs @ [w]) = str_strip xs"
proof (induction xs)
  case Nil
  then show ?case by (simp add: str_strip_def)
next
  case (Cons x xs)
  then show ?case by (cases "isspace x") (simp_all add: str_strip_def)
qed

lemma str_strip_id:
  assumes "xs \<noteq> []" and "\<not> isspace (hd xs)" and "\<not> isspace (last xs)"
  shows "str_strip xs = xs"
proof -
  from assms(1,2) have l: "dropWhile isspace xs = xs" by (cases xs) auto
  from assms(1,3) have r: "dropWhile isspace (rev xs) = rev xs"
    by (cases "rev xs") (auto simp: last_rev [symmetric] simp del: last_rev)
  show ?thesis by (simp add: str_strip_def l r)
qed

lemma isspace_newline: "isspace (CHR 0x0A)"
  by (simp add: isspace_def)

lemma to_prompt_unfolded:
  "to_prompt c =
     (''PROTAGONIST PROFILE:'' @ newline @ ''Name: '') @ name c
     @ (newline @ ''World: '') @ str_title (world c)
     @ (newline @ ''Background: '' @ background c @ newline
        @ ''Personality Traits: ''
        @ (if traits c \<noteq> [] then str_join '', '' (traits c)
           else ''No specific traits defined'')
        @ newline @ ''Goals & Motivations: '' @ goals c @ newline @ newline
        @ ''This character is the protagonist of the story. All narrative should be written from their perspective or about their actions and decisions.'')"
  (is "_ = ?body")
proof -
  have "to_prompt c = str_strip (CHR 0x0A # (?body @ [CHR 0x0A]))"
    by (simp add: to_prompt_def Let_def newline_def)
  also have "\<dots> = str_strip ?body"
    by (simp only: str_strip_whitespace_left [OF isspace_newline]
          str_strip_whitespace_right [OF isspace_newline])
  also have "\<dots> = ?body"
    by (rule str_strip_id) (simp_all add: isspace_def)
  finally show ?thesis .
qed

text \<open>
  Claim C8, as amended. For every character the prompt contains the name as it is, and the
  world identifier in title case (\<open>world.title()\<close>).
\<close>

theorem to_prompt_contains_name_and_titled_world:
  "sublist (name c) (to_prompt c) \<and> sublist (str_title (world c)) (to_prompt c)"
proof
  show "sublist (name c) (to_prompt c)"
    by (subst to_prompt_unfolded) (rule sublist_appendI)
  have "sublist (str_title (world c))
          (((''PROTAGONIST PROFILE:'' @ newline @ ''Name: '') @ name c @ (newline @ ''World: ''))
            @ str_title (world c) @
           (newline @ ''Background: '' @ background c @ newline
        @ ''Personality Traits: ''
        @ (if traits c \<noteq> [] then str_join '', '' (traits c)
           else ''No specific traits defined'')
        @ newline @ ''Goals & Motivations: '' @ goals c @ newline @ newline
        @ ''This character is the protagonist of the story. All narrative should be written from their perspective or about their actions and decisions.''))"
    by (rule sublist_appendI)
  then show "sublist (str_title (world c)) (to_prompt c)"
    by (subst to_prompt_unfolded) (simp only: append_assoc)
qed

theorem to_prompt_contains_name_and_titled_world_witness:
  "sublist ''Test Hero'' (to_prompt test_hero) \<and> sublist ''Fantasy'' (to_prompt test_hero)"
proof -
  have n: "name test_hero = ''Test Hero''" by (simp add: test_hero_def)
  have "world test_hero = ''fantasy''" by (simp add: test_hero_def)
  moreover have "str_title ''fantasy'' = ''Fantasy''" by code_simp
  ultimately have w: "str_title (world test_hero) = ''Fantasy''" by simp
  from to_prompt_contains_name_and_titled_world [of test_hero] show ?thesis
    unfolding n w .
qed

text \<open>
  The claim as it is written has the world identifier itself in the prompt. The prompt of
  the test character holds \<open>Fantasy\<close> and nowhere \<open>fantasy\<close>.
\<close>

theorem to_prompt_world_counterexample:
  "\<not> sublist (world test_hero) (to_prompt test_hero)"
  by code_simp

section \<open>Properties of the history\<close>

text \<open>For a positive \<open>n\<close> the slice \<open>xs[-n:]\<close> is the last \<open>min(n, len(xs))\<close> elements.\<close>

lemma slice_from_last_n:
  "1 \<le> n \<Longrightarrow> slice_from xs (- n) = drop (length xs - min (nat n) (length xs)) xs"
  by (auto simp: slice_from_def min_def max_def nat_diff_distrib' nat_le_iff intro: arg_cong [where f = "\<lambda>k. drop k xs"])

text \<open>With \<open>n = 0\<close> the slice \<open>xs[-0:]\<close> is the whole list.\<close>

lemma get_recent_context_zero:
  "get_recent_context h 0 = get_recent_context h (int (length (story_chunks h)))"
  by (simp add: get_recent_context_def slice_from_def)

text \<open>
  Claim C10, as amended. On a history with no chunks \<open>get_recent_context(n)\<close> returns the
  empty string. On a history with \<open>k \<ge> 1\<close> chunks and for \<open>n \<ge> 1\<close> it returns the texts of
  the last \<open>min(n, k)\<close> chunks, followed, when the history has a decision and more chunks
  than decisions, by the line of the last decision, all joined in order with a blank line
  between two parts.
\<close>

theorem get_recent_context_spec:
  "(story_chunks h = [] \<longrightarrow> get_recent_context h n = [])
   \<and> (story_chunks h \<noteq> [] \<and> 1 \<le> n \<longrightarrow>
        get_recent_context h n =
          str_join (newline @ newline)
            (map chunk_text
               (drop (length (story_chunks h) - min (nat n) (length (story_chunks h)))
                  (story_chunks h))
             @ (if decisions h \<noteq> [] \<and> length (decisions h) < length (story_chunks h)
                then [newline @ ''[Last Decision: '' @ decision_text (last (decisions h)) @ '']'']
                else [])))"
  by (simp add: get_recent_context_def Let_def slice_from_last_n)

theorem get_recent_context_spec_witness:
  "get_recent_context awaiting_second_choice 1 =
     ''The path narrows.'' @ newline @ newline @ newline @ ''[Last Decision: Go left]''"
proof -
  have h: "story_chunks awaiting_second_choice \<noteq> [] \<and> (1 :: int) \<le> 1"
    by (simp add: awaiting_second_choice_def add_story_chunk_def)
  from get_recent_context_spec [of awaiting_second_choice 1] h show ?thesis
    by (simp add: awaiting_second_choice_def add_story_chunk_def add_decision_def
          new_history_def)
qed

text \<open>
  The claim as it is written returns the texts of the chunks alone. With two chunks, one
  decision and \<open>n = 1\<close> the result is the text of the last chunk and the line of the last
  decision.
\<close>

theorem get_recent_context_counterexample:
  "spec_recent_context awaiting_second_choice 1 = ''The path narrows.''
   \<and> get_recent_context awaiting_second_choice 1
       \<noteq> spec_recent_context awaiting_second_choice 1"
  by (simp add: spec_recent_context_def get_recent_context_def slice_from_def
        awaiting_second_choice_def add_story_chunk_def add_decision_def new_history_def
        newline_def)

subsection \<open>Serialization\<close>

lemma map_err_as_str: "map_err as_str (map JStr xs) = Inr xs"
  by (induction xs) (simp_all add: bind_err_def as_str_def)

lemma StoryChunk_roundtrip:
  assumes "\<And>d. fromisoformat (isoformat d) = Some d"
  shows "StoryChunk_from_dict fromisoformat (StoryChunk_to_dict isoformat c) = Inr c"
  by (simp add: StoryChunk_from_dict_def StoryChunk_to_dict_def get_item_def get_default_def
        bind_err_def as_str_def as_datetime_def as_str_list_def as_list_def map_err_as_str assms)

lemma DecisionEntry_roundtrip:
  assumes "\<And>d. fromisoformat (isoformat d) = Some d"
  shows "DecisionEntry_from_dict fromisoformat (DecisionEntry_to_dict isoformat c) = Inr c"
  by (simp add: DecisionEntry_from_dict_def DecisionEntry_to_dict_def get_item_def get_default_def
        bind_err_def as_str_def as_int_def as_datetime_def as_str_list_def as_list_def map_err_as_str assms)

lemma map_err_roundtrip:
  assumes "\<And>x. f (g x) = Inr x"
  shows "map_err f (map g xs) = Inr xs"
  by (induction xs) (simp_all add: bind_err_def assms)

lemma from_dict_to_dict:
  assumes "\<And>d. fromisoformat (isoformat d) = Some d"
  shows "from_dict fromisoformat (to_dict isoformat h) = Inr h"
proof -
  have chunks: "map_err (StoryChunk_from_dict fromisoformat)
                  (map (StoryChunk_to_dict isoformat) (story_chunks h)) = Inr (story_chunks h)"
    by (rule map_err_roundtrip) (rule StoryChunk_roundtrip [OF assms])
  have ds: "map_err (DecisionEntry_from_dict fromisoformat)
              (map (DecisionEntry_to_dict isoformat) (decisions h)) = Inr (decisions h)"
    by (rule map_err_roundtrip) (rule DecisionEntry_roundtrip [OF assms])
  show ?thesis
    by (simp add: from_dict_def to_dict_def get_item_def get_default_def
          bind_err_def as_str_def as_datetime_def as_list_def assms chunks ds)
qed

text \<open>
  Claim C9. For every history, serializing it and deserializing the result yields a
  history with the same session identifier, character name and world identifier, and the
  same numbers of chunks and of decisions. The standard library is taken by its contract:
  \<open>json.loads\<close> inverts \<open>json.dumps\<close>, and \<open>fromisoformat\<close> inverts \<open>isoformat\<close>.
\<close>

theorem history_json_roundtrip:
  assumes "\<And>j. loads (dumps j) = Some j"
    and "\<And>d. fromisoformat (isoformat d) = Some d"
  shows "\<exists>h'. from_json loads fromisoformat (to_json dumps isoformat h) = Inr h'
           \<and> session_id h' = session_id h
           \<and> character_name h' = character_name h
           \<and> world_type h' = world_type h
           \<and> length (story_chunks h') = length (story_chunks h)
           \<and> length (decisions h') = length (decisions h)"
  by (simp add: from_json_def to_json_def assms(1) from_dict_to_dict [OF assms(2)])

theorem history_json_roundtrip_witness:
  "\<exists>h'. from_json Some Some (to_json id id saved_history) = Inr h'
        \<and> session_id h' = ''test_session'' \<and> character_name h' = ''Test Hero''
        \<and> world_type h' = ''fantasy''
        \<and> length (story_chunks h') = 2 \<and> length (decisions h') = 1"
proof -
  have s: "session_id saved_history = ''test_session''"
    "character_name saved_history = ''Test Hero''"
    "world_type saved_history = ''fantasy''"
    "length (story_chunks saved_history) = 2"
    "length (decisions saved_history) = 1"
    by (simp_all add: saved_history_def new_history_def add_story_chunk_def add_decision_def)
  have "\<And>j :: json. Some (id j) = Some j" and "\<And>d :: string. Some (id d) = Some d"
    by simp_all
  from history_json_roundtrip [of Some id Some id saved_history, OF this]
  show ?thesis unfolding s .
qed

section \<open>Properties of the retry\<close>

text \<open>
  The test on the error text reads: some part of the text, lowercased, is one of the
  indicators.
\<close>

lemma sublist_map_iff:
  "sublist k (map f e) \<longleftrightarrow> (\<exists>sub. sublist sub e \<and> map f sub = k)"
proof
  assume "sublist k (map f e)"
  then obtain ps ss where "map f e = ps @ k @ ss" by (auto simp: sublist_def)
  then obtain a bc where 1: "e = a @ bc" "map f bc = k @ ss"
    by (metis map_eq_append_conv)
  then obtain b c where 2: "bc = b @ c" "map f b = k"
    by (metis map_eq_append_conv)
  from 1 2 have "e = a @ b @ c" "map f b = k" by simp_all
  then show "\<exists>sub. sublist sub e \<and> map f sub = k" by auto
next
  assume "\<exists>sub. sublist sub e \<and> map f sub = k"
  then show "sublist k (map f e)" using map_mono_sublist by blast
qed

lemma is_rate_limit_iff:
  "is_rate_limit e \<longleftrightarrow>
     (\<exists>sub. sublist sub e \<and> str_lower sub \<in> set rate_limit_keywords)"
  by (auto simp: is_rate_limit_def list_ex_iff str_lower_def sublist_map_iff)

lemma retry_loop_returns:
  assumes "attempt \<le> max_retries" and "func (op_state w) = (Inr v, s')"
  shows "retry_loop func max_retries base_delay attempt w =
           (Inr (Some v), w\<lparr>op_state := s', calls := calls w + 1\<rparr>)"
  using assms by (subst retry_loop.simps) (simp add: invoke_def)

lemma retry_loop_last_attempt:
  assumes "func (op_state w) = (Inl e, s')"
  shows "retry_loop func max_retries base_delay max_retries w =
           (Inl e, w\<lparr>op_state := s', calls := calls w + 1\<rparr>)"
  using assms by (subst retry_loop.simps) (simp add: invoke_def)

lemma retry_loop_other_error:
  assumes "attempt \<le> max_retries" and "func (op_state w) = (Inl e, s')" and "\<not> is_rate_limit e"
  shows "retry_loop func max_retries base_delay attempt w =
           (Inl e, w\<lparr>op_state := s', calls := calls w + 1\<rparr>)"
  using assms by (subst retry_loop.simps) (simp add: invoke_def)

lemma retry_loop_rate_limited:
  assumes "0 \<le> attempt" "attempt < max_retries" and "0 \<le> base_delay"
    and "func (op_state w) = (Inl e, s')" and "is_rate_limit e"
  shows "retry_loop func max_retries base_delay attempt w =
           retry_loop func max_retries base_delay (attempt + 1)
             (w\<lparr>op_state := s', calls := calls w + 1,
                sleeps := sleeps w @ [base_delay * 2 ^ nat attempt]\<rparr>)"
proof -
  have "\<not> base_delay * 2 ^ nat attempt < 0"
    using assms(3) by (simp add: not_less)
  with assms show ?thesis
    by (subst retry_loop.simps) (simp add: invoke_def time_sleep_def)
qed

lemma state_after_Suc: "state_after func (Suc n) s = snd (func (state_after func n s))"
  by (simp add: state_after_def)

lemma func_state_after:
  "func (state_after func n s) = (outcome func n s, state_after func (Suc n) s)"
  by (simp add: outcome_def state_after_Suc)

lemma backoff_delays_Suc:
  "backoff_delays b (Suc k) = backoff_delays b k @ [b * 2 ^ k]"
  by (simp add: backoff_delays_def)

lemma retry_loop_skip:
  assumes "0 \<le> base_delay" and "int k \<le> max_retries"
    and "\<forall>j<k. \<exists>e. outcome func j (op_state w) = Inl e \<and> is_rate_limit e"
  shows "retry_loop func max_retries base_delay 0 w =
           retry_loop func max_retries base_delay (int k) (world_after func base_delay k k w)"
  using assms(2,3)
proof (induction k)
  case 0
  then show ?case by (cases w) (simp add: world_after_def state_after_def backoff_delays_def)
next
  case (Suc k)
  from Suc.prems obtain e where e: "outcome func k (op_state w) = Inl e" "is_rate_limit e"
    by auto
  let ?w = "world_after func base_delay k k w"
  have f: "func (op_state ?w) = (Inl e, state_after func (Suc k) (op_state w))"
    using e(1) by (simp add: world_after_def func_state_after)
  have "retry_loop func max_retries base_delay 0 w =
          retry_loop func max_retries base_delay (int k) ?w"
    using Suc by simp
  also have "\<dots> = retry_loop func max_retries base_delay (int k + 1)
                     (?w\<lparr>op_state := state_after func (Suc k) (op_state w),
                         calls := calls ?w + 1,
                         sleeps := sleeps ?w @ [base_delay * 2 ^ nat (int k)]\<rparr>)"
    using Suc.prems(1) assms(1) e(2) f by (intro retry_loop_rate_limited) auto
  also have "?w\<lparr>op_state := state_after func (Suc k) (op_state w),
                         calls := calls ?w + 1,
                         sleeps := sleeps ?w @ [base_delay * 2 ^ nat (int k)]\<rparr>
              = world_after func base_delay (Suc k) (Suc k) w"
    by (simp add: world_after_def backoff_delays_Suc)
  finally show ?case by (simp add: add.commute)
qed

text \<open>
  Claim C3. Let \<open>max_retries\<close> and \<open>base_delay\<close> be non-negative, and let the first \<open>k\<close>
  invocations of the operation, \<open>k \<le> max_retries\<close>, each fail with an error whose text
  contains a rate-limit indicator. Then \<open>retry_with_backoff\<close> has invoked the operation
  \<open>k + 1\<close> times and has slept \<open>base_delay * 2^j\<close> after failure number \<open>j\<close>, for
  \<open>j = 0, ..., k - 1\<close>, and nothing else; if invocation number \<open>k\<close> returns a value, that
  value is returned, and if it fails and \<open>k = max_retries\<close>, its error propagates. An
  operation that fails twice with \<open>429 rate limit\<close> and then returns has its value returned
  after sleeps of \<open>base_delay\<close> and \<open>2 * base_delay\<close>.
\<close>

theorem retry_with_backoff_spec:
  assumes "0 \<le> base_delay" and "int k \<le> max_retries"
    and "\<forall>j<k. \<exists>e. outcome func j (op_state w) = Inl e \<and> is_rate_limit e"
  shows "(outcome func k (op_state w) = Inr v \<longrightarrow>
            retry_with_backoff func max_retries base_delay w =
              (Inr (Some v), world_after func base_delay (Suc k) k w))
       \<and> (outcome func k (op_state w) = Inl e \<and> int k = max_retries \<longrightarrow>
            retry_with_backoff func max_retries base_delay w =
              (Inl e, world_after func base_delay (Suc k) k w))"
proof -
  let ?w = "world_after func base_delay k k w"
  have skip: "retry_with_backoff func max_retries base_delay w =
          retry_loop func max_retries base_delay (int k) ?w"
    unfolding retry_with_backoff_def by (rule retry_loop_skip [OF assms])
  have upd: "?w\<lparr>op_state := state_after func (Suc k) (op_state w), calls := calls ?w + 1\<rparr>
              = world_after func base_delay (Suc k) k w"
    by (simp add: world_after_def)
  have f: "func (op_state ?w) = (outcome func k (op_state w), state_after func (Suc k) (op_state w))"
    by (simp add: world_after_def func_state_after)
  show ?thesis
  proof (intro conjI impI)
    assume "outcome func k (op_state w) = Inr v"
    with f have "func (op_state ?w) = (Inr v, state_after func (Suc k) (op_state w))" by simp
    from retry_loop_returns [where func = func and w = ?w, OF assms(2) this] skip upd
    show "retry_with_backoff func max_retries base_delay w =
              (Inr (Some v), world_after func base_delay (Suc k) k w)" by simp
  next
    assume a: "outcome func k (op_state w) = Inl e \<and> int k = max_retries"
    with f have "func (op_state ?w) = (Inl e, state_after func (Suc k) (op_state w))" by simp
    from retry_loop_last_attempt [where func = func and w = ?w, OF this, of max_retries base_delay] skip upd a
    show "retry_with_backoff func max_retries base_delay w =
              (Inl e, world_after func base_delay (Suc k) k w)" by simp
  qed
qed

lemma is_rate_limit_429: "is_rate_limit ''429 rate limit''"
  by code_simp

theorem retry_with_backoff_spec_witness:
  "retry_with_backoff flaky 3 1 \<lparr>op_state = 0, sleeps = [], calls = 0\<rparr> =
     (Inr (Some ''Once upon a time''), \<lparr>op_state = 3, sleeps = [1, 2], calls = 3\<rparr>)"
proof -
  let ?w = "\<lparr>op_state = 0 :: nat, sleeps = [], calls = 0\<rparr>"
  have s: "state_after flaky 0 0 = 0" "state_after flaky 1 0 = 1" "state_after flaky 2 0 = 2" "state_after flaky 3 0 = 3"
    by (simp_all add: state_after_def flaky_def eval_nat_numeral)
  have o: "outcome flaky 0 0 = Inl ''429 rate limit''" "outcome flaky 1 0 = Inl ''429 rate limit''"
      "outcome flaky 2 0 = Inr ''Once upon a time''"
    by (simp_all add: outcome_def state_after_def flaky_def eval_nat_numeral)
  have h: "\<forall>j<2. \<exists>e. outcome flaky j (op_state ?w) = Inl e \<and> is_rate_limit e"
    using o is_rate_limit_429 by (auto simp: less_Suc_eq numeral_2_eq_2)
  have w: "world_after flaky 1 (Suc 2) 2 ?w = \<lparr>op_state = 3, sleeps = [1, 2], calls = 3\<rparr>"
    using s by (simp add: world_after_def backoff_delays_def numeral_3_eq_3 [symmetric] upt_rec)
  from retry_with_backoff_spec [of 1 2 3 flaky ?w "''Once upon a time''"] h o w
  show ?thesis by simp
qed

text \<open>
  Claim C4. When the first invocation of the operation fails with an error whose text
  contains no rate-limit indicator, \<open>retry_with_backoff\<close> propagates that error at once: it
  has not slept, and it has invoked the operation once.
\<close>

theorem retry_non_rate_limit_propagates:
  assumes "0 \<le> max_retries" and "func (op_state w) = (Inl e, s')" and "\<not> is_rate_limit e"
  shows "retry_with_backoff func max_retries base_delay w =
           (Inl e, w\<lparr>op_state := s', calls := calls w + 1\<rparr>)"
  unfolding retry_with_backoff_def using assms by (rule retry_loop_other_error)

theorem retry_non_rate_limit_propagates_witness:
  "retry_with_backoff broken 3 1 \<lparr>op_state = 0, sleeps = [], calls = 0\<rparr> =
     (Inl ''API key not valid'', \<lparr>op_state = 1, sleeps = [], calls = 1\<rparr>)"
proof -
  have n: "\<not> is_rate_limit ''API key not valid''"
    by code_simp
  have f: "broken (op_state \<lparr>op_state = 0, sleeps = [], calls = 0\<rparr>) = (Inl ''API key not valid'', 1)"
    by (simp add: broken_def)
  from retry_non_rate_limit_propagates
         [where func = broken and max_retries = 3 and base_delay = 1, OF _ f n]
  show ?thesis by simp
qed

section \<open>The invariant of the history\<close>

text \<open>
  Starting a story establishes the invariant and a continuation that returns keeps it. A
  choice made while the engine is not available adds a decision and no chunk, and leaves
  the options in place.
\<close>

lemma start_new_story_invariant:
  assumes "story_history (start_new_story character stamp result now cid s) = Some h"
  shows "history_invariant h"
  using assms
  by (cases result)
     (auto simp: start_new_story_def new_history_def add_story_chunk_def history_invariant_def Let_def)

lemma make_decision_returned_invariant:
  assumes "story_history s = Some h" and "history_invariant h"
    and "make_decision choice_index (Returned story_text new_options) now cid s = Inr s'"
    and "story_history s' = Some h'"
  shows "history_invariant h'"
  using assms
  by (auto simp: make_decision_def add_story_chunk_def add_decision_def history_invariant_def
        Let_def split: if_splits option.splits)

lemma make_decision_unavailable_sizes:
  assumes "story_history s = Some h" and "current_options s \<noteq> []"
    and "0 \<le> choice_index" and "choice_index < int (length (current_options s))"
  shows "\<exists>s' h'. make_decision choice_index Unavailable now cid s = Inr s'
           \<and> story_history s' = Some h' \<and> current_options s' = current_options s
           \<and> length (decisions h') = length (decisions h) + 1
           \<and> story_chunks h' = story_chunks h"
  using assms
  by (simp add: make_decision_def add_decision_def list_index_def Let_def)

text \<open>
  Claim C2 says that after every sequence of start, choose and continue operations the
  history has at most as many decisions as chunks. \<open>make_decision\<close> records the decision
  before it asks the engine, and returns with no new chunk when the engine is not
  available; the session still awaits a choice on the same options. After a started story
  and two such choices the history has two decisions and one chunk.
\<close>

theorem two_failed_choices_break_invariant:
  "history_sizes after_failed_choices = Some (2, 1)"
  by (simp add: after_failed_choices_def history_sizes_def started_session_def
        start_new_story_def make_decision_def initial_session_def new_history_def
        add_story_chunk_def add_decision_def list_index_def four_choices_def test_hero_def)

theorem two_failed_choices_break_invariant_witness:
  "\<exists>s h. after_failed_choices = Inr s \<and> story_history s = Some h \<and> \<not> history_invariant h"
  using two_failed_choices_break_invariant
  by (auto simp: history_sizes_def history_invariant_def split: sum.splits)

end
